theory Spec2Isabelle
  imports Complex_Main
begin

section \<open>Data model of src/main.cpp\<close>

text \<open>
  The firmware is one Arduino sketch: global variables, \<open>setup()\<close>, and \<open>loop()\<close>, which
  the Arduino runtime calls for ever; one call of \<open>loop()\<close> is one control tick.
  The stepper drivers (AccelStepper), the debounced sensors (Bounce2), the serial port and
  the digital pins are libraries and hardware outside the sketch. The model treats them as
  the environment: what the sketch reads from them in one tick is a \<open>tick_input\<close>, and
  every call by which the sketch commands them is appended, in program order, to the
  \<open>hwlog\<close> of the state.
\<close>

datatype pin_level = LOW | HIGH

datatype stepper = stepperX | stepperY | stepperRotation

datatype SystemState =
    IDLE
  | HOMING_X
  | HOMING_Y
  | HOMED_WAITING
  | EXECUTING_PATTERN
  | ERROR
  | CYCLE_COMPLETE

text \<open>
  \<open>class Command\<close>: the fields \<open>type\<close>, \<open>value\<close> and \<open>sprayOn\<close>. The first two names are
  reserved words of Isabelle, hence \<open>ctype\<close> and \<open>cvalue\<close>. The \<open>float\<close> field holds
  decimal literals of the pattern tables; they are kept as exact rationals, and the
  arguments the sketch computes from them are passed on to the stepper as rationals (the
  rounding of single-precision arithmetic and the conversion to \<open>long\<close> at the call are not
  modelled; nothing below depends on the numeric value of a move).
\<close>

record Command =
  ctype :: char
  cvalue :: rat
  sprayOn :: bool

definition MOVE_X :: "rat \<Rightarrow> bool \<Rightarrow> Command" where
  "MOVE_X d spray = \<lparr>ctype = CHR ''X'', cvalue = d, sprayOn = spray\<rparr>"

definition MOVE_Y :: "rat \<Rightarrow> bool \<Rightarrow> Command" where
  "MOVE_Y d spray = \<lparr>ctype = CHR ''Y'', cvalue = d, sprayOn = spray\<rparr>"

definition ROTATE :: "rat \<Rightarrow> Command" where
  "ROTATE deg = \<lparr>ctype = CHR ''R'', cvalue = deg, sprayOn = False\<rparr>"

definition SPRAY_ON :: Command where
  "SPRAY_ON = \<lparr>ctype = CHR ''S'', cvalue = 0, sprayOn = True\<rparr>"

definition SPRAY_OFF :: Command where
  "SPRAY_OFF = \<lparr>ctype = CHR ''S'', cvalue = 0, sprayOn = False\<rparr>"

subsection \<open>Pins and calibration constants\<close>

definition PAINT_RELAY_PIN :: int where "PAINT_RELAY_PIN = 4"
definition X_HOME_SENSOR_PIN :: int where "X_HOME_SENSOR_PIN = 12"
definition Y_HOME_SENSOR_PIN :: int where "Y_HOME_SENSOR_PIN = 8"

definition X_STEPS_PER_INCH :: int where "X_STEPS_PER_INCH = 127"
definition Y_STEPS_PER_INCH :: int where "Y_STEPS_PER_INCH = 169"
definition X_SPEED :: int where "X_SPEED = 5000"
definition Y_SPEED :: int where "Y_SPEED = 5000"
definition ROTATION_SPEED :: int where "ROTATION_SPEED = 1000"
definition X_ACCEL :: int where "X_ACCEL = 20000"
definition Y_ACCEL :: int where "Y_ACCEL = 5000"
definition ROTATION_ACCEL :: int where "ROTATION_ACCEL = 200"

subsection \<open>The pattern tables\<close>

definition SIDE1_PATTERN :: "Command list" where
  "SIDE1_PATTERN =
   [MOVE_X (9/2) False,
    SPRAY_ON, MOVE_X 26 True, SPRAY_OFF, MOVE_Y (416/100) False,
    SPRAY_ON, MOVE_X (-26) True, SPRAY_OFF, MOVE_Y (416/100) False,
    SPRAY_ON, MOVE_X 26 True, SPRAY_OFF, MOVE_Y (416/100) False,
    SPRAY_ON, MOVE_X (-26) True, SPRAY_OFF, MOVE_Y (416/100) False,
    SPRAY_ON, MOVE_X 26 True, SPRAY_OFF, MOVE_Y (416/100) False,
    SPRAY_ON, MOVE_X (-26) True, SPRAY_OFF, MOVE_Y (416/100) False,
    SPRAY_ON, MOVE_X 26 True, SPRAY_OFF, MOVE_Y (416/100) False,
    SPRAY_ON, MOVE_X (-26) True, SPRAY_OFF,
    ROTATE 180]"

definition SIDE2_PATTERN :: "Command list" where
  "SIDE2_PATTERN =
   [SPRAY_ON, MOVE_X 26 True, SPRAY_OFF, MOVE_Y (-416/100) False,
    SPRAY_ON, MOVE_X (-26) True, SPRAY_OFF, MOVE_Y (-416/100) False,
    SPRAY_ON, MOVE_X 26 True, SPRAY_OFF, MOVE_Y (-416/100) False,
    SPRAY_ON, MOVE_X (-26) True, SPRAY_OFF, MOVE_Y (-416/100) False,
    SPRAY_ON, MOVE_X 26 True, SPRAY_OFF, MOVE_Y (-416/100) False,
    SPRAY_ON, MOVE_X (-26) True, SPRAY_OFF, MOVE_Y (-416/100) False,
    SPRAY_ON, MOVE_X 26 True, SPRAY_OFF, MOVE_Y (-416/100) False,
    SPRAY_ON, MOVE_X (-26) True, SPRAY_OFF,
    MOVE_X (-9/2) False,
    ROTATE 90]"

definition SIDE3_PATTERN :: "Command list" where
  "SIDE3_PATTERN =
   [MOVE_Y (9/2) False,
    SPRAY_ON, MOVE_X 35 True, SPRAY_OFF, MOVE_Y (4415/1000) False,
    SPRAY_ON, MOVE_X (-35) True, SPRAY_OFF, MOVE_Y (4415/1000) False,
    SPRAY_ON, MOVE_X 35 True, SPRAY_OFF, MOVE_Y (4415/1000) False,
    SPRAY_ON, MOVE_X (-35) True, SPRAY_OFF, MOVE_Y (4415/1000) False,
    SPRAY_ON, MOVE_X 35 True, SPRAY_OFF, MOVE_Y (4415/1000) False,
    SPRAY_ON, MOVE_X (-35) True, SPRAY_OFF,
    ROTATE 180]"

definition SIDE4_PATTERN :: "Command list" where
  "SIDE4_PATTERN =
   [SPRAY_ON, MOVE_X 35 True, SPRAY_OFF, MOVE_Y (-4415/1000) False,
    SPRAY_ON, MOVE_X (-35) True, SPRAY_OFF, MOVE_Y (-4415/1000) False,
    SPRAY_ON, MOVE_X 35 True, SPRAY_OFF, MOVE_Y (-4415/1000) False,
    SPRAY_ON, MOVE_X (-35) True, SPRAY_OFF, MOVE_Y (-4415/1000) False,
    SPRAY_ON, MOVE_X 35 True, SPRAY_OFF, MOVE_Y (-4415/1000) False,
    SPRAY_ON, MOVE_X (-35) True, SPRAY_OFF,
    MOVE_Y (-9/2) False]"

text \<open>\<open>sizeof(SIDEn_PATTERN) / sizeof(Command)\<close>: the number of entries of the table.\<close>

definition SIDE1_SIZE :: nat where "SIDE1_SIZE = length SIDE1_PATTERN"
definition SIDE2_SIZE :: nat where "SIDE2_SIZE = length SIDE2_PATTERN"
definition SIDE3_SIZE :: nat where "SIDE3_SIZE = length SIDE3_PATTERN"
definition SIDE4_SIZE :: nat where "SIDE4_SIZE = length SIDE4_PATTERN"

subsection \<open>Calls to the environment\<close>

text \<open>
  One constructor per library call the sketch makes to command the hardware.
  \<open>PatternRead side index\<close> is not a call: it records the array access
  \<open>currentPattern[currentCommand]\<close> of \<open>processPattern\<close>, so that a claim about which
  table entries are read can be stated on the log.
\<close>

datatype hw_event =
    DigitalWrite int pin_level
  | PinMode int string
  | SensorAttach int
  | SensorInterval int
  | SerialBegin int
  | SerialPrint string
  | SerialPrintInt int
  | SerialPrintln string
  | SetMaxSpeed stepper int
  | SetAcceleration stepper int
  | SetPinsInverted stepper bool
  | SetCurrentPosition stepper int
  | Move stepper rat
  | MoveTo stepper int
  | Stop stepper
  | PatternRead nat nat

text \<open>
  The global variables, the level last written to the relay pin, and the log.
  \<open>currentSide\<close> and \<open>currentCommand\<close> are C \<open>int\<close>s that start at 0 and are only ever
  reset to 0 or incremented, up to 4 and up to a table size: they are natural numbers
  here. \<open>sidesToPaint\<close> is the array \<open>bool[4]\<close>, a list whose length 4 is the invariant
  \<open>wf_state\<close> below.
\<close>

record state =
  systemState :: SystemState
  motorsRunning :: bool
  currentSide :: nat
  currentCommand :: nat
  sidesToPaint :: "bool list"
  paintRelay :: pin_level
  hwlog :: "hw_event list"

definition wf_state :: "state \<Rightarrow> bool" where
  "wf_state s = (length (sidesToPaint s) = 4)"

text \<open>
  What one tick reads from the environment: the debounced sensor levels
  (\<open>xHomeSensor.read()\<close>, \<open>yHomeSensor.read()\<close>; the sensors are active-low, so \<open>False\<close>
  is triggered), the three \<open>isRunning()\<close> answers at the top of \<open>loop()\<close>, the answers
  of \<open>stepperX.isRunning()\<close> and \<open>stepperY.isRunning()\<close> in the homing branches (asked
  after \<open>run()\<close>, so they can differ from the first), and the operator's line:
  \<open>None\<close> when \<open>Serial.available()\<close> is 0, otherwise the string \<open>input\<close> as it is after
  \<open>readStringUntil('\n')\<close> and \<open>trim()\<close>.
\<close>

record tick_input =
  xHomeRead :: bool
  yHomeRead :: bool
  xIsRunning :: bool
  yIsRunning :: bool
  rotIsRunning :: bool
  xIsRunningHoming :: bool
  yIsRunningHoming :: bool
  serialInput :: "string option"

definition emit :: "hw_event \<Rightarrow> state \<Rightarrow> state" where
  "emit e s = s\<lparr>hwlog := hwlog s @ [e]\<rparr>"

text \<open>\<open>digitalWrite\<close>: the sketch writes one pin only, the relay's.\<close>

definition digitalWrite :: "int \<Rightarrow> pin_level \<Rightarrow> state \<Rightarrow> state" where
  "digitalWrite pin v s =
     emit (DigitalWrite pin v) (if pin = PAINT_RELAY_PIN then s\<lparr>paintRelay := v\<rparr> else s)"

section \<open>The operations\<close>

definition executeCommand :: "Command \<Rightarrow> state \<Rightarrow> state" where
  "executeCommand cmd s =
     (if ctype cmd = CHR ''X'' then
        emit (Move stepperX (cvalue cmd * of_int X_STEPS_PER_INCH))
          (if sprayOn cmd then digitalWrite PAINT_RELAY_PIN LOW s else s)
      else if ctype cmd = CHR ''Y'' then
        emit (Move stepperY (cvalue cmd * of_int Y_STEPS_PER_INCH))
          (if sprayOn cmd then digitalWrite PAINT_RELAY_PIN LOW s else s)
      else if ctype cmd = CHR ''R'' then
        emit (Move stepperRotation ((cvalue cmd * 5000) / 360)) s
      else if ctype cmd = CHR ''S'' then
        digitalWrite PAINT_RELAY_PIN (if sprayOn cmd then LOW else HIGH) s
      else s)"

text \<open>
  The initial values of the globals. The level of the relay pin before \<open>setup()\<close>
  writes it is the board's, a parameter. \<open>setup\<close> is a reserved word of Isabelle, hence
  \<open>setup_sketch\<close>.
\<close>

definition globals :: "pin_level \<Rightarrow> state" where
  "globals r =
     \<lparr>systemState = IDLE, motorsRunning = False, currentSide = 0, currentCommand = 0,
      sidesToPaint = [True, True, True, True], paintRelay = r, hwlog = []\<rparr>"

definition setup_sketch :: "state \<Rightarrow> state" where
  "setup_sketch s =
     (let s = emit (SerialBegin 115200) s;
          s = emit (PinMode PAINT_RELAY_PIN ''OUTPUT'') s;
          s = digitalWrite PAINT_RELAY_PIN HIGH s;
          s = emit (PinMode X_HOME_SENSOR_PIN ''INPUT_PULLUP'') s;
          s = emit (PinMode Y_HOME_SENSOR_PIN ''INPUT_PULLUP'') s;
          s = emit (SensorAttach X_HOME_SENSOR_PIN) s;
          s = emit (SensorAttach Y_HOME_SENSOR_PIN) s;
          s = emit (SensorInterval 10) s;
          s = emit (SensorInterval 10) s;
          s = emit (SetMaxSpeed stepperX 500) s;
          s = emit (SetAcceleration stepperX X_ACCEL) s;
          s = emit (SetPinsInverted stepperX True) s;
          s = emit (SetMaxSpeed stepperY 500) s;
          s = emit (SetAcceleration stepperY Y_ACCEL) s;
          s = emit (SetPinsInverted stepperY False) s;
          s = emit (SetMaxSpeed stepperRotation ROTATION_SPEED) s;
          s = emit (SetAcceleration stepperRotation ROTATION_ACCEL) s;
          s = emit (SerialPrintln ''CNC Paint Sprayer Ready'') s;
          s = emit (SerialPrintln ''Commands:'') s;
          s = emit (SerialPrintln ''H - Home'') s;
          s = emit (SerialPrintln ''S - Start'') s;
          s = emit (SerialPrintln ''E - Stop'') s;
          s = emit (SerialPrintln ''R - Reset'') s;
          s = emit (SerialPrintln ''12/13/14/23/24/34 etc. - Select sides to paint'') s
      in s)"

definition startup :: "pin_level \<Rightarrow> state" where
  "startup r = setup_sketch (globals r)"

subsection \<open>parseSideSelection\<close>

text \<open>
  \<open>input.charAt(i) - '0'\<close> is computed in \<open>int\<close> from a \<open>char\<close>, which is signed on the
  AVR boards: bytes from 128 on are negative.
\<close>

definition char_int :: "char \<Rightarrow> int" where
  "char_int c = (let u = of_char c in if u < 128 then u else u - 256)"

text \<open>The first loop: \<open>sidesToPaint[i] = false\<close> for \<open>i\<close> from 0 to 3.\<close>

fun resetSides :: "nat list \<Rightarrow> bool list \<Rightarrow> bool list" where
  "resetSides [] sel = sel"
| "resetSides (i # is) sel = resetSides is (sel[i := False])"

text \<open>The second loop, over the characters of the input.\<close>

fun markSides :: "string \<Rightarrow> bool list \<Rightarrow> bool list" where
  "markSides [] sel = sel"
| "markSides (c # cs) sel =
     (let side = char_int c - char_int CHR ''0''
      in markSides cs (if side \<ge> 1 \<and> side \<le> 4 then sel[nat (side - 1) := True] else sel))"

definition parseSideSelection :: "string \<Rightarrow> state \<Rightarrow> state" where
  "parseSideSelection input s =
     s\<lparr>sidesToPaint := markSides input (resetSides [0, 1, 2, 3] (sidesToPaint s))\<rparr>"

subsection \<open>processPattern\<close>

text \<open>
  The \<open>while\<close> loop that finds the next side to paint. Every iteration increments
  \<open>currentSide\<close>, which is below 4 when the body runs.
\<close>

function findNextSide :: "state \<Rightarrow> state" where
  "findNextSide s =
     (if currentSide s < 4 \<and> \<not> sidesToPaint s ! currentSide s
      then findNextSide (s\<lparr>currentSide := currentSide s + 1, currentCommand := 0\<rparr>)
      else s)"
  by pat_completeness auto
termination
  by (relation "measure (\<lambda>s. 4 - currentSide s)") auto

text \<open>The \<open>switch(currentSide)\<close>: it has the cases 0 to 3 and is reached below 4 only.\<close>

definition currentPattern :: "nat \<Rightarrow> Command list" where
  "currentPattern side =
     (if side = 0 then SIDE1_PATTERN
      else if side = 1 then SIDE2_PATTERN
      else if side = 2 then SIDE3_PATTERN
      else SIDE4_PATTERN)"

definition patternSize :: "nat \<Rightarrow> nat" where
  "patternSize side =
     (if side = 0 then SIDE1_SIZE
      else if side = 1 then SIDE2_SIZE
      else if side = 2 then SIDE3_SIZE
      else SIDE4_SIZE)"

definition processPattern :: "state \<Rightarrow> state" where
  "processPattern s =
     (if \<not> motorsRunning s then
        (let s = findNextSide s in
         if currentSide s \<ge> 4 then s\<lparr>systemState := CYCLE_COMPLETE\<rparr>
         else
           (let s = emit (SetMaxSpeed stepperX X_SPEED) s;
                s = emit (SetAcceleration stepperX X_ACCEL) s;
                s = emit (SetMaxSpeed stepperY Y_SPEED) s;
                s = emit (SetAcceleration stepperY Y_ACCEL) s
            in if currentCommand s < patternSize (currentSide s) then
                 (let s = emit (PatternRead (currentSide s) (currentCommand s)) s;
                      s = executeCommand (currentPattern (currentSide s) ! currentCommand s) s
                  in s\<lparr>currentCommand := currentCommand s + 1\<rparr>)
               else s\<lparr>currentCommand := 0, currentSide := currentSide s + 1\<rparr>))
      else s)"

subsection \<open>loop\<close>

text \<open>The report printed after a side selection: the selected sides, numbered from 1.\<close>

fun printSelected :: "nat list \<Rightarrow> state \<Rightarrow> state" where
  "printSelected [] s = s"
| "printSelected (i # is) s =
     printSelected is
       (if sidesToPaint s ! i
        then emit (SerialPrint '' '') (emit (SerialPrintInt (int i + 1)) s)
        else s)"

text \<open>
  The body of \<open>if (Serial.available())\<close>, given the trimmed line: the \<open>switch\<close> on a
  single character, or the side selection for two characters and more. An empty line
  takes neither branch.
\<close>

definition handleInput :: "string \<Rightarrow> state \<Rightarrow> state" where
  "handleInput input s =
     (if length input = 1 then
        (let cmd = input ! 0 in
         if cmd = CHR ''H'' \<or> cmd = CHR ''h'' then
           (if systemState s = IDLE then s\<lparr>systemState := HOMING_X\<rparr> else s)
         else if cmd = CHR ''S'' \<or> cmd = CHR ''s'' then
           (if systemState s = HOMED_WAITING
            then s\<lparr>currentSide := 0, currentCommand := 0, systemState := EXECUTING_PATTERN\<rparr>
            else s)
         else if cmd = CHR ''E'' \<or> cmd = CHR ''e'' then
           emit (Stop stepperRotation)
             (emit (Stop stepperY)
               (emit (Stop stepperX)
                 (digitalWrite PAINT_RELAY_PIN HIGH (s\<lparr>systemState := ERROR\<rparr>))))
         else if cmd = CHR ''R'' \<or> cmd = CHR ''r'' then
           (if systemState s = ERROR then s\<lparr>systemState := IDLE\<rparr> else s)
         else s)
      else if length input \<ge> 2 then
        emit (SerialPrintln '''')
          (printSelected [0, 1, 2, 3]
            (emit (SerialPrint ''Selected sides to paint: '') (parseSideSelection input s)))
      else s)"

text \<open>The \<open>switch(systemState)\<close> at the end of \<open>loop()\<close>.\<close>

definition stateAction :: "tick_input \<Rightarrow> state \<Rightarrow> state" where
  "stateAction inp s =
     (case systemState s of
        IDLE \<Rightarrow> s
      | HOMING_X \<Rightarrow>
          (if \<not> xHomeRead inp
           then (emit (SetCurrentPosition stepperX 0) s)\<lparr>systemState := HOMING_Y\<rparr>
           else if \<not> xIsRunningHoming inp then emit (MoveTo stepperX (- 1000000)) s
           else s)
      | HOMING_Y \<Rightarrow>
          (if \<not> yHomeRead inp
           then emit (SerialPrintln ''Homing complete. Enter 'S' to start painting.'')
                  ((emit (SetCurrentPosition stepperY 0) s)\<lparr>systemState := HOMED_WAITING\<rparr>)
           else if \<not> yIsRunningHoming inp then emit (MoveTo stepperY (- 1000000)) s
           else s)
      | HOMED_WAITING \<Rightarrow> s
      | EXECUTING_PATTERN \<Rightarrow> processPattern s
      | ERROR \<Rightarrow> s
      | CYCLE_COMPLETE \<Rightarrow>
          (if \<not> motorsRunning s
           then (emit (SerialPrintln ''Cycle complete'') s)\<lparr>systemState := IDLE\<rparr>
           else s))"

text \<open>
  One call of \<open>loop()\<close>. The calls \<open>update()\<close> of the sensors and \<open>run()\<close> of the
  steppers at its top are made on every tick whatever the state; their results are the
  tick's input.
\<close>

definition loop :: "tick_input \<Rightarrow> state \<Rightarrow> state" where
  "loop inp s =
     (let s = s\<lparr>motorsRunning := xIsRunning inp \<or> yIsRunning inp \<or> rotIsRunning inp\<rparr>;
          s = (case serialInput inp of None \<Rightarrow> s | Some input \<Rightarrow> handleInput input s)
      in stateAction inp s)"

text \<open>A sequence of ticks, first input first.\<close>

fun run :: "tick_input list \<Rightarrow> state \<Rightarrow> state" where
  "run [] s = s"
| "run (inp # inps) s = run inps (loop inp s)"

subsection \<open>Vocabulary of the statements\<close>

text \<open>The calls that command a stepper, as opposed to the relay, the serial port and the
  pattern reads.\<close>

definition isAxisCall :: "hw_event \<Rightarrow> bool" where
  "isAxisCall e =
     (case e of
        SetMaxSpeed _ _ \<Rightarrow> True
      | SetAcceleration _ _ \<Rightarrow> True
      | SetPinsInverted _ _ \<Rightarrow> True
      | SetCurrentPosition _ _ \<Rightarrow> True
      | Move _ _ \<Rightarrow> True
      | MoveTo _ _ \<Rightarrow> True
      | Stop _ \<Rightarrow> True
      | _ \<Rightarrow> False)"

text \<open>A tick in which nothing happens outside: no sensor triggered, no axis moving, no
  operator line. Concrete inputs are written as updates of it.\<close>

definition quietTick :: tick_input where
  "quietTick =
     \<lparr>xHomeRead = True, yHomeRead = True, xIsRunning = False, yIsRunning = False,
      rotIsRunning = False, xIsRunningHoming = False, yIsRunningHoming = False,
      serialInput = None\<rparr>"

text \<open>The four calls by which every executing advance of \<open>processPattern\<close> sets the
  painting speed and acceleration of the two linear axes.\<close>

definition configCalls :: "hw_event list" where
  "configCalls =
     [SetMaxSpeed stepperX X_SPEED, SetAcceleration stepperX X_ACCEL,
      SetMaxSpeed stepperY Y_SPEED, SetAcceleration stepperY Y_ACCEL]"

text \<open>A state in the middle of a cycle: all axes idle, the cursor on the last command of
  the fourth side (index 23 of 24).\<close>

definition lastOfSide4 :: state where
  "lastOfSide4 =
     \<lparr>systemState = EXECUTING_PATTERN, motorsRunning = False, currentSide = 3,
      currentCommand = 23, sidesToPaint = [True, True, True, True], paintRelay = HIGH,
      hwlog = []\<rparr>"

section \<open>Properties\<close>

subsection \<open>Field-wise effect of the environment calls\<close>

lemma emit_simps:
  "systemState (emit e s) = systemState s"
  "motorsRunning (emit e s) = motorsRunning s"
  "currentSide (emit e s) = currentSide s"
  "currentCommand (emit e s) = currentCommand s"
  "sidesToPaint (emit e s) = sidesToPaint s"
  "paintRelay (emit e s) = paintRelay s"
  "hwlog (emit e s) = hwlog s @ [e]"
  by (simp_all add: emit_def)

lemma digitalWrite_simps:
  "systemState (digitalWrite p v s) = systemState s"
  "motorsRunning (digitalWrite p v s) = motorsRunning s"
  "currentSide (digitalWrite p v s) = currentSide s"
  "currentCommand (digitalWrite p v s) = currentCommand s"
  "sidesToPaint (digitalWrite p v s) = sidesToPaint s"
  "paintRelay (digitalWrite PAINT_RELAY_PIN v s) = v"
  "hwlog (digitalWrite p v s) = hwlog s @ [DigitalWrite p v]"
  by (simp_all add: digitalWrite_def emit_def)

subsection \<open>The emergency command\<close>

text \<open>
  Claim C1. In every state, the tick that consumes the emergency command (the line
  \<open>E\<close> or \<open>e\<close>) ends in \<open>ERROR\<close> with the relay pin at its inactive level \<open>HIGH\<close>, and
  what that tick sends to the hardware is exactly: the relay write, then \<open>stop()\<close> to
  the X, the Y and the rotation stepper.
\<close>

theorem emergency_any_state:
  assumes "serialInput inp = Some [c]" and "c = CHR ''E'' \<or> c = CHR ''e''"
  shows "systemState (loop inp s) = ERROR \<and> paintRelay (loop inp s) = HIGH \<and>
         hwlog (loop inp s) = hwlog s @
           [DigitalWrite PAINT_RELAY_PIN HIGH, Stop stepperX, Stop stepperY, Stop stepperRotation]"
  using assms
  by (auto simp: loop_def handleInput_def stateAction_def emit_simps digitalWrite_simps)

theorem emergency_any_state_witness:
  "systemState (loop (quietTick\<lparr>serialInput := Some ''E''\<rparr>)
      ((startup LOW)\<lparr>systemState := EXECUTING_PATTERN, paintRelay := LOW\<rparr>)) = ERROR \<and>
   paintRelay (loop (quietTick\<lparr>serialInput := Some ''E''\<rparr>)
      ((startup LOW)\<lparr>systemState := EXECUTING_PATTERN, paintRelay := LOW\<rparr>)) = HIGH"
  using emergency_any_state [of "quietTick\<lparr>serialInput := Some ''E''\<rparr>" "CHR ''E''"
      "(startup LOW)\<lparr>systemState := EXECUTING_PATTERN, paintRelay := LOW\<rparr>"]
  by (simp add: quietTick_def)

subsection \<open>Guarded commands\<close>

lemma stateAction_serialInput:
  "stateAction (inp\<lparr>serialInput := x\<rparr>) s = stateAction inp s"
  by (simp add: stateAction_def)

text \<open>
  Claim C2. The home command outside \<open>IDLE\<close>, the start command outside
  \<open>HOMED_WAITING\<close> and the reset command outside \<open>ERROR\<close> are dropped: handling the line
  leaves the whole state as it is (state, cursor, selection, relay, and nothing sent to
  the hardware), and the tick is the tick that would have run with no line at all.
\<close>

theorem guarded_commands_ignored:
  assumes "serialInput inp = Some [c]"
    and "((c = CHR ''H'' \<or> c = CHR ''h'') \<and> systemState s \<noteq> IDLE) \<or>
         ((c = CHR ''S'' \<or> c = CHR ''s'') \<and> systemState s \<noteq> HOMED_WAITING) \<or>
         ((c = CHR ''R'' \<or> c = CHR ''r'') \<and> systemState s \<noteq> ERROR)"
  shows "handleInput [c] s = s \<and> loop inp s = loop (inp\<lparr>serialInput := None\<rparr>) s"
proof -
  have h: "handleInput [c] t = t" if "systemState t = systemState s" for t
    using assms(2) that by (auto simp: handleInput_def)
  have "loop inp s = loop (inp\<lparr>serialInput := None\<rparr>) s"
    by (simp add: loop_def assms(1) h stateAction_serialInput)
  with h show ?thesis by simp
qed

theorem guarded_commands_ignored_witness:
  "handleInput ''s''
     ((startup LOW)\<lparr>systemState := EXECUTING_PATTERN, currentSide := 2, currentCommand := 5\<rparr>)
     = (startup LOW)\<lparr>systemState := EXECUTING_PATTERN, currentSide := 2, currentCommand := 5\<rparr> \<and>
   loop (quietTick\<lparr>serialInput := Some ''s'', xIsRunning := True\<rparr>)
        ((startup LOW)\<lparr>systemState := EXECUTING_PATTERN, currentSide := 2, currentCommand := 5\<rparr>)
     = loop (quietTick\<lparr>xIsRunning := True\<rparr>)
        ((startup LOW)\<lparr>systemState := EXECUTING_PATTERN, currentSide := 2, currentCommand := 5\<rparr>)"
  using guarded_commands_ignored
    [of "quietTick\<lparr>serialInput := Some ''s'', xIsRunning := True\<rparr>" "CHR ''s''"
      "(startup LOW)\<lparr>systemState := EXECUTING_PATTERN, currentSide := 2, currentCommand := 5\<rparr>"]
  by (simp add: quietTick_def)

subsection \<open>Homing\<close>

lemma isAxisCall_simps:
  "isAxisCall (SetCurrentPosition a n)" "isAxisCall (MoveTo a n)" "isAxisCall (Move a r)"
  "isAxisCall (Stop a)" "isAxisCall (SetMaxSpeed a n)" "isAxisCall (SetAcceleration a n)"
  "\<not> isAxisCall (SerialPrint x)" "\<not> isAxisCall (SerialPrintln x)"
  "\<not> isAxisCall (SerialPrintInt n)" "\<not> isAxisCall (DigitalWrite n v)"
  "\<not> isAxisCall (PatternRead i j)"
  by (simp_all add: isAxisCall_def)

lemma printSelected_fields:
  "systemState (printSelected is s) = systemState s"
  "motorsRunning (printSelected is s) = motorsRunning s"
  "currentSide (printSelected is s) = currentSide s"
  "currentCommand (printSelected is s) = currentCommand s"
  "sidesToPaint (printSelected is s) = sidesToPaint s"
  "paintRelay (printSelected is s) = paintRelay s"
  by (induction "is" arbitrary: s; simp add: emit_simps)+

lemma printSelected_axis:
  "filter isAxisCall (hwlog (printSelected is s)) = filter isAxisCall (hwlog s)"
  by (induction "is" arbitrary: s)
    (simp_all add: emit_simps isAxisCall_simps printSelected_fields)

text \<open>A line other than the emergency command sends nothing to a stepper.\<close>

lemma handleInput_no_emergency:
  assumes "input \<noteq> ''E''" "input \<noteq> ''e''"
  shows "filter isAxisCall (hwlog (handleInput input s)) = filter isAxisCall (hwlog s)"
proof (cases "length input = 1")
  case True
  then obtain c where "input = [c]" by (cases input) auto
  with assms show ?thesis
    by (auto simp: handleInput_def)
next
  case False
  then show ?thesis
    by (simp add: handleInput_def emit_simps printSelected_axis isAxisCall_simps
        parseSideSelection_def)
qed

text \<open>While homing, no line but the emergency command changes the system state.\<close>

lemma handleInput_homing_state:
  assumes "input \<noteq> ''E''" "input \<noteq> ''e''"
    and "systemState s = HOMING_X \<or> systemState s = HOMING_Y"
  shows "systemState (handleInput input s) = systemState s"
proof (cases "length input = 1")
  case True
  then obtain c where c: "input = [c]" by (cases input) auto
  from assms(3) show ?thesis
  proof
    assume "systemState s = HOMING_X"
    with assms(1,2) show ?thesis unfolding c by (simp add: handleInput_def)
  next
    assume "systemState s = HOMING_Y"
    with assms(1,2) show ?thesis unfolding c by (simp add: handleInput_def)
  qed
next
  case False
  then show ?thesis
    by (simp add: handleInput_def emit_simps printSelected_fields parseSideSelection_def)
qed

text \<open>
  Claim C5. A tick that starts in a homing state and does not consume the emergency
  command (which would leave homing before the state's action runs): when the axis's
  sensor reads triggered (\<open>read()\<close> false, the sensors being active-low) the tick sets that
  stepper's current position to 0 and the state advances, \<open>HOMING_X\<close> to \<open>HOMING_Y\<close> and
  \<open>HOMING_Y\<close> to \<open>HOMED_WAITING\<close>; when the sensor reads untriggered and the stepper is
  not running, the tick commands the absolute target -1000000; otherwise it sends nothing
  to any stepper. These are the only stepper calls of the tick, so the only target ever
  commanded is that constant: none is computed from a position.
\<close>

theorem homing_step:
  assumes "serialInput inp \<noteq> Some ''E''" and "serialInput inp \<noteq> Some ''e''"
    and "systemState s = HOMING_X \<or> systemState s = HOMING_Y"
  shows "systemState (loop inp s) =
           (if systemState s = HOMING_X then (if xHomeRead inp then HOMING_X else HOMING_Y)
            else (if yHomeRead inp then HOMING_Y else HOMED_WAITING)) \<and>
         filter isAxisCall (hwlog (loop inp s)) = filter isAxisCall (hwlog s) @
           (if systemState s = HOMING_X then
              (if \<not> xHomeRead inp then [SetCurrentPosition stepperX 0]
               else if \<not> xIsRunningHoming inp then [MoveTo stepperX (- 1000000)] else [])
            else
              (if \<not> yHomeRead inp then [SetCurrentPosition stepperY 0]
               else if \<not> yIsRunningHoming inp then [MoveTo stepperY (- 1000000)] else []))"
proof -
  define s0 where
    "s0 = s\<lparr>motorsRunning := xIsRunning inp \<or> yIsRunning inp \<or> rotIsRunning inp\<rparr>"
  define s1 where
    "s1 = (case serialInput inp of None \<Rightarrow> s0 | Some input \<Rightarrow> handleInput input s0)"
  have l: "loop inp s = stateAction inp s1"
    unfolding loop_def s0_def s1_def Let_def ..
  have st: "systemState s1 = systemState s"
    using assms by (cases "serialInput inp")
      (simp_all add: s1_def s0_def handleInput_homing_state)
  have lg: "filter isAxisCall (hwlog s1) = filter isAxisCall (hwlog s)"
    using assms by (cases "serialInput inp")
      (simp_all add: s1_def s0_def handleInput_no_emergency)
  show ?thesis
    using assms(3) st lg unfolding l
    by (auto simp: stateAction_def emit_simps isAxisCall_simps)
qed

theorem homing_step_witness:
  "systemState (loop (quietTick\<lparr>xHomeRead := False\<rparr>)
      ((startup LOW)\<lparr>systemState := HOMING_X\<rparr>)) = HOMING_Y \<and>
   filter isAxisCall (hwlog (loop (quietTick\<lparr>xHomeRead := False\<rparr>)
      ((startup LOW)\<lparr>systemState := HOMING_X\<rparr>)))
     = filter isAxisCall (hwlog ((startup LOW)\<lparr>systemState := HOMING_X\<rparr>)) @
       [SetCurrentPosition stepperX 0]"
  using homing_step [of "quietTick\<lparr>xHomeRead := False\<rparr>"
      "(startup LOW)\<lparr>systemState := HOMING_X\<rparr>"]
  by (simp add: quietTick_def)

subsection \<open>Side selection\<close>

lemma char_int_zero: "char_int CHR ''0'' = 48"
  by (simp add: char_int_def)

lemma char_int_digit:
  "char_int c = 49 \<longleftrightarrow> c = CHR ''1''"
  "char_int c = 50 \<longleftrightarrow> c = CHR ''2''"
  "char_int c = 51 \<longleftrightarrow> c = CHR ''3''"
  "char_int c = 52 \<longleftrightarrow> c = CHR ''4''"
proof -
  have r: "0 \<le> (of_char c :: int)" "(of_char c :: int) < 256"
    by (simp_all add: of_char_def)
  have e: "(of_char c :: int) = of_char d \<longleftrightarrow> c = d" for d
    by (metis of_char_eq_iff)
  show "char_int c = 49 \<longleftrightarrow> c = CHR ''1''"
    using r e [of "CHR ''1''"] by (auto simp: char_int_def Let_def)
  show "char_int c = 50 \<longleftrightarrow> c = CHR ''2''"
    using r e [of "CHR ''2''"] by (auto simp: char_int_def Let_def)
  show "char_int c = 51 \<longleftrightarrow> c = CHR ''3''"
    using r e [of "CHR ''3''"] by (auto simp: char_int_def Let_def)
  show "char_int c = 52 \<longleftrightarrow> c = CHR ''4''"
    using r e [of "CHR ''4''"] by (auto simp: char_int_def Let_def)
qed


lemma markSides_four:
  "markSides cs [a, b, c, d] =
     [a \<or> CHR ''1'' \<in> set cs, b \<or> CHR ''2'' \<in> set cs,
      c \<or> CHR ''3'' \<in> set cs, d \<or> CHR ''4'' \<in> set cs]"
proof (induction cs arbitrary: a b c d)
  case Nil
  then show ?case by simp
next
  case (Cons x cs)
  define side where "side = char_int x - char_int CHR ''0''"
  consider "side = 1" | "side = 2" | "side = 3" | "side = 4" | "side < 1 \<or> side > 4"
    by linarith
  then show ?case
  proof cases
    case 1
    then have "x = CHR ''1''"
      using char_int_digit(1) [of x] by (simp add: side_def char_int_zero)
    then show ?thesis
      using Cons.IH [of True b c d] by (simp add: char_int_def)
  next
    case 2
    then have "x = CHR ''2''"
      using char_int_digit(2) [of x] by (simp add: side_def char_int_zero)
    then show ?thesis
      using Cons.IH [of a True c d] by (simp add: char_int_def)
  next
    case 3
    then have "x = CHR ''3''"
      using char_int_digit(3) [of x] by (simp add: side_def char_int_zero)
    then show ?thesis
      using Cons.IH [of a b True d] by (simp add: char_int_def)
  next
    case 4
    then have "x = CHR ''4''"
      using char_int_digit(4) [of x] by (simp add: side_def char_int_zero)
    then show ?thesis
      using Cons.IH [of a b c True] by (simp add: char_int_def)
  next
    case 5
    then have "x \<noteq> CHR ''1''" "x \<noteq> CHR ''2''" "x \<noteq> CHR ''3''" "x \<noteq> CHR ''4''"
      by (auto simp: side_def char_int_def)
    moreover have "markSides (x # cs) [a, b, c, d] = markSides cs [a, b, c, d]"
      using 5 by (auto simp: side_def [symmetric] Let_def)
    ultimately show ?thesis
      using Cons.IH [of a b c d] by simp
  qed
qed

lemma resetSides_four: "resetSides [0, 1, 2, 3] [a, b, c, d] = [False, False, False, False]"
  by simp

lemma four_list:
  assumes "length xs = 4"
  obtains a b c d where "xs = [a, b, c, d]"
  using assms by (auto simp: numeral_eq_Suc length_Suc_conv)

lemma parseSideSelection_sides:
  assumes "wf_state s"
  shows "sidesToPaint (parseSideSelection input s) =
           map (\<lambda>d. d \<in> set input) ''1234''"
proof -
  from assms obtain a b c d where "sidesToPaint s = [a, b, c, d]"
    unfolding wf_state_def by (rule four_list)
  then show ?thesis
    by (simp add: parseSideSelection_def markSides_four)
qed

subsection \<open>What the pattern sequencer leaves alone\<close>

declare findNextSide.simps [simp del]

lemma findNextSide_frame:
  "findNextSide s =
     s\<lparr>currentSide := currentSide (findNextSide s),
       currentCommand := currentCommand (findNextSide s)\<rparr>"
proof (induction s rule: findNextSide.induct)
  case (1 s)
  show ?case
  proof (cases "currentSide s < 4 \<and> \<not> sidesToPaint s ! currentSide s")
    case True
    then have e: "findNextSide s =
        findNextSide (s\<lparr>currentSide := currentSide s + 1, currentCommand := 0\<rparr>)"
      by (subst findNextSide.simps) simp
    show ?thesis
      unfolding e by (subst "1.IH" [OF True]) simp
  next
    case False
    then have "findNextSide s = s"
      by (subst findNextSide.simps) auto
    then show ?thesis by simp
  qed
qed

lemma findNextSide_fields:
  "systemState (findNextSide s) = systemState s"
  "motorsRunning (findNextSide s) = motorsRunning s"
  "sidesToPaint (findNextSide s) = sidesToPaint s"
  "paintRelay (findNextSide s) = paintRelay s"
  "hwlog (findNextSide s) = hwlog s"
  by (subst findNextSide_frame, simp)+

lemma executeCommand_fields:
  "systemState (executeCommand cmd s) = systemState s"
  "motorsRunning (executeCommand cmd s) = motorsRunning s"
  "currentSide (executeCommand cmd s) = currentSide s"
  "currentCommand (executeCommand cmd s) = currentCommand s"
  "sidesToPaint (executeCommand cmd s) = sidesToPaint s"
  by (simp_all add: executeCommand_def emit_simps digitalWrite_simps)

lemma processPattern_sidesToPaint: "sidesToPaint (processPattern s) = sidesToPaint s"
  by (simp add: processPattern_def Let_def emit_simps findNextSide_fields executeCommand_fields)

lemma stateAction_sidesToPaint: "sidesToPaint (stateAction inp s) = sidesToPaint s"
  by (cases "systemState s")
    (simp_all add: stateAction_def emit_simps processPattern_sidesToPaint)

lemma startup_fields:
  "systemState (startup r) = IDLE"
  "motorsRunning (startup r) = False"
  "currentSide (startup r) = 0"
  "currentCommand (startup r) = 0"
  "sidesToPaint (startup r) = [True, True, True, True]"
  "paintRelay (startup r) = HIGH"
  by (simp_all add: startup_def setup_sketch_def globals_def Let_def emit_simps
      digitalWrite_simps)

lemma wf_state_startup: "wf_state (startup r)"
  by (simp add: wf_state_def startup_fields)

lemma handleInput_selection:
  assumes "wf_state s" and "length input \<ge> 2"
  shows "sidesToPaint (handleInput input s) = map (\<lambda>d. d \<in> set input) ''1234''"
  using assms
  by (simp add: handleInput_def emit_simps printSelected_fields parseSideSelection_sides
      del: printSelected.simps)

text \<open>
  Claim C7. For an operator line of two characters or more (the string \<open>input\<close> of
  \<open>loop()\<close>, whose length the sketch tests), the tick leaves side i selected exactly
  when the digit i occurs in the line, for i from 1 to 4: other characters are ignored,
  repeated digits change nothing, and a line with none of the four digits leaves all
  four sides unselected. The lines 13 and 1133 both give sides 1 and 3 selected, 2 and 4
  not.
\<close>

theorem selection_input:
  assumes "wf_state s" and "serialInput inp = Some input" and "length input \<ge> 2"
  shows "sidesToPaint (loop inp s) = map (\<lambda>d. d \<in> set input) ''1234'' \<and>
         (input = ''13'' \<or> input = ''1133'' \<longrightarrow>
            sidesToPaint (loop inp s) = [True, False, True, False])"
proof -
  have "wf_state (s\<lparr>motorsRunning := xIsRunning inp \<or> yIsRunning inp \<or> rotIsRunning inp\<rparr>)"
    using assms(1) by (simp add: wf_state_def)
  then have "sidesToPaint (loop inp s) = map (\<lambda>d. d \<in> set input) ''1234''"
    using assms(2,3)
    by (simp add: loop_def stateAction_sidesToPaint handleInput_selection)
  then show ?thesis by auto
qed

theorem selection_input_witness:
  "sidesToPaint (loop (quietTick\<lparr>serialInput := Some ''13''\<rparr>) (startup LOW))
     = [True, False, True, False] \<and>
   sidesToPaint (loop (quietTick\<lparr>serialInput := Some ''1133''\<rparr>) (startup LOW))
     = [True, False, True, False] \<and>
   sidesToPaint (loop (quietTick\<lparr>serialInput := Some ''x9''\<rparr>) (startup LOW))
     = [False, False, False, False]"
  using selection_input [OF wf_state_startup, of "quietTick\<lparr>serialInput := Some ''13''\<rparr>" "''13''" LOW]
    selection_input [OF wf_state_startup, of "quietTick\<lparr>serialInput := Some ''1133''\<rparr>" "''1133''" LOW]
    selection_input [OF wf_state_startup, of "quietTick\<lparr>serialInput := Some ''x9''\<rparr>" "''x9''" LOW]
  by (simp add: quietTick_def)

lemma handleInput_short_selection:
  assumes "length input < 2"
  shows "sidesToPaint (handleInput input s) = sidesToPaint s"
proof (cases "length input = 1")
  case True
  then obtain c where c: "input = [c]" by (cases input) auto
  show ?thesis
    unfolding c by (simp add: handleInput_def Let_def emit_simps digitalWrite_simps)
next
  case False
  with assms show ?thesis by (simp add: handleInput_def)
qed

text \<open>
  Claim C8, as stated, fails: the line \<open>0\<close> is one character long, so \<open>loop()\<close> hands
  it to the \<open>switch\<close> on single-character commands, where it matches no case; the
  selection parser is never called. From the startup state all four sides stay selected.
\<close>

theorem zero_input_counterexample:
  "sidesToPaint (loop (quietTick\<lparr>serialInput := Some ''0''\<rparr>) (startup LOW))
     \<noteq> [False, False, False, False]"
  by (simp add: loop_def stateAction_sidesToPaint handleInput_short_selection
      quietTick_def startup_fields)

text \<open>
  Claim C8, amended. The tick that consumes the line \<open>0\<close> leaves the side selection as
  it was; handling that line changes nothing at all. \<open>parseSideSelection\<close> applied to
  \<open>0\<close> would unselect all four sides, but \<open>loop()\<close> calls it only for lines of two
  characters and more.
\<close>

theorem zero_input_ignored:
  assumes "serialInput inp = Some ''0''"
  shows "sidesToPaint (loop inp s) = sidesToPaint s \<and>
         handleInput ''0'' s = s \<and>
         (wf_state s \<longrightarrow>
            sidesToPaint (parseSideSelection ''0'' s) = [False, False, False, False])"
  using assms
  by (simp add: loop_def stateAction_sidesToPaint handleInput_short_selection
      parseSideSelection_sides) (simp add: handleInput_def)

theorem zero_input_ignored_witness:
  "sidesToPaint (loop (quietTick\<lparr>serialInput := Some ''0''\<rparr>) (startup LOW))
     = [True, True, True, True] \<and>
   sidesToPaint (parseSideSelection ''0'' (startup LOW)) = [False, False, False, False]"
  using zero_input_ignored [of "quietTick\<lparr>serialInput := Some ''0''\<rparr>" "startup LOW"]
    wf_state_startup [of LOW]
  by (simp add: quietTick_def startup_fields)

subsection \<open>Frame of the emergency command and of the selection\<close>

text \<open>
  Claim C9. The tick that consumes the emergency command changes the system state (to
  \<open>ERROR\<close>), the relay level and the log (the relay write and the three stops), and
  refreshes \<open>motorsRunning\<close> as every tick does; every other variable, the cursor
  \<open>currentSide\<close>, \<open>currentCommand\<close> and the selection \<open>sidesToPaint\<close> among them, keeps
  its value. And a tick with no operator line, or with a line shorter than two
  characters, leaves the selection as it was, whatever the state: only a selection line
  changes it, and no cycle start or end resets it.
\<close>

theorem emergency_frame:
  "((serialInput inp = Some ''E'' \<or> serialInput inp = Some ''e'') \<longrightarrow>
      loop inp s =
        s\<lparr>systemState := ERROR,
          motorsRunning := xIsRunning inp \<or> yIsRunning inp \<or> rotIsRunning inp,
          paintRelay := HIGH,
          hwlog := hwlog s @ [DigitalWrite PAINT_RELAY_PIN HIGH, Stop stepperX, Stop stepperY,
                              Stop stepperRotation]\<rparr>) \<and>
   ((\<forall>input. serialInput inp = Some input \<longrightarrow> length input < 2) \<longrightarrow>
      sidesToPaint (loop inp s) = sidesToPaint s)"
proof (intro conjI impI)
  assume "serialInput inp = Some ''E'' \<or> serialInput inp = Some ''e''"
  then show "loop inp s =
        s\<lparr>systemState := ERROR,
          motorsRunning := xIsRunning inp \<or> yIsRunning inp \<or> rotIsRunning inp,
          paintRelay := HIGH,
          hwlog := hwlog s @ [DigitalWrite PAINT_RELAY_PIN HIGH, Stop stepperX, Stop stepperY,
                              Stop stepperRotation]\<rparr>"
    by (auto simp: loop_def handleInput_def stateAction_def emit_def digitalWrite_def)
next
  assume a: "\<forall>input. serialInput inp = Some input \<longrightarrow> length input < 2"
  show "sidesToPaint (loop inp s) = sidesToPaint s"
    using a by (cases "serialInput inp")
      (simp_all add: loop_def stateAction_sidesToPaint handleInput_short_selection)
qed

theorem emergency_frame_witness:
  "currentSide (loop (quietTick\<lparr>serialInput := Some ''E''\<rparr>)
      ((startup LOW)\<lparr>systemState := EXECUTING_PATTERN, currentSide := 2, currentCommand := 7,
         sidesToPaint := [False, True, True, False]\<rparr>)) = 2 \<and>
   currentCommand (loop (quietTick\<lparr>serialInput := Some ''E''\<rparr>)
      ((startup LOW)\<lparr>systemState := EXECUTING_PATTERN, currentSide := 2, currentCommand := 7,
         sidesToPaint := [False, True, True, False]\<rparr>)) = 7 \<and>
   sidesToPaint (loop (quietTick\<lparr>serialInput := Some ''E''\<rparr>)
      ((startup LOW)\<lparr>systemState := EXECUTING_PATTERN, currentSide := 2, currentCommand := 7,
         sidesToPaint := [False, True, True, False]\<rparr>)) = [False, True, True, False]"
  using emergency_frame [of "quietTick\<lparr>serialInput := Some ''E''\<rparr>"
      "(startup LOW)\<lparr>systemState := EXECUTING_PATTERN, currentSide := 2, currentCommand := 7,
         sidesToPaint := [False, True, True, False]\<rparr>"]
  by (simp add: quietTick_def)

subsection \<open>One advance of the pattern sequencer\<close>

lemma findNextSide_stop:
  "\<not> (currentSide s < 4 \<and> \<not> sidesToPaint s ! currentSide s) \<Longrightarrow> findNextSide s = s"
  by (subst findNextSide.simps) auto

lemma findNextSide_skip:
  "currentSide s < 4 \<Longrightarrow> \<not> sidesToPaint s ! currentSide s \<Longrightarrow>
   findNextSide s = findNextSide (s\<lparr>currentSide := currentSide s + 1, currentCommand := 0\<rparr>)"
  by (subst findNextSide.simps) simp

lemma findNextSide_cursor:
  "currentSide s \<le> currentSide (findNextSide s) \<and>
   (\<forall>k. currentSide s \<le> k \<and> k < currentSide (findNextSide s) \<longrightarrow> \<not> sidesToPaint s ! k) \<and>
   (currentSide (findNextSide s) < 4 \<longrightarrow> sidesToPaint s ! currentSide (findNextSide s)) \<and>
   (currentSide s \<le> 4 \<longrightarrow> currentSide (findNextSide s) \<le> 4) \<and>
   currentCommand (findNextSide s) =
     (if currentSide (findNextSide s) = currentSide s then currentCommand s else 0)"
proof (induction s rule: findNextSide.induct)
  case (1 s)
  show ?case
  proof (cases "currentSide s < 4 \<and> \<not> sidesToPaint s ! currentSide s")
    case False
    then show ?thesis by (auto simp: findNextSide_stop)
  next
    case True
    define s' where "s' = s\<lparr>currentSide := currentSide s + 1, currentCommand := 0\<rparr>"
    have e: "findNextSide s = findNextSide s'"
      using True by (simp add: findNextSide_skip s'_def)
    have ih: "currentSide s' \<le> currentSide (findNextSide s')"
      "\<And>k. currentSide s' \<le> k \<Longrightarrow> k < currentSide (findNextSide s') \<Longrightarrow> \<not> sidesToPaint s' ! k"
      "currentSide (findNextSide s') < 4 \<Longrightarrow> sidesToPaint s' ! currentSide (findNextSide s')"
      "currentSide s' \<le> 4 \<Longrightarrow> currentSide (findNextSide s') \<le> 4"
      "currentCommand (findNextSide s') =
         (if currentSide (findNextSide s') = currentSide s' then currentCommand s' else 0)"
      using "1.IH" [OF True] unfolding s'_def by blast+
    have f: "currentSide s' = currentSide s + 1" "sidesToPaint s' = sidesToPaint s"
      "currentCommand s' = 0"
      by (simp_all add: s'_def)
    have a: "currentSide s \<le> currentSide (findNextSide s')"
      using ih(1) f(1) by linarith
    have b: "\<not> sidesToPaint s ! k"
      if "currentSide s \<le> k" "k < currentSide (findNextSide s')" for k
    proof (cases "k = currentSide s")
      case True
      with \<open>currentSide s < 4 \<and> \<not> sidesToPaint s ! currentSide s\<close> show ?thesis by simp
    next
      case False
      with that have "currentSide s' \<le> k" using f(1) by linarith
      from ih(2) [OF this that(2)] show ?thesis using f(2) by simp
    qed
    have c: "currentSide (findNextSide s') < 4 \<longrightarrow> sidesToPaint s ! currentSide (findNextSide s')"
      using ih(3) f(2) by simp
    have d: "currentSide s \<le> 4 \<longrightarrow> currentSide (findNextSide s') \<le> 4"
      using ih(4) True f(1) by linarith
    have g: "currentCommand (findNextSide s') =
        (if currentSide (findNextSide s') = currentSide s then currentCommand s else 0)"
      using ih(5) ih(1) f(1,3) by auto
    show ?thesis
      unfolding e using a b c d g by blast
  qed
qed


lemma pattern_sizes:
  "patternSize 0 = 33" "patternSize 1 = 33" "patternSize 2 = 25" "patternSize 3 = 24"
  by (simp_all add: patternSize_def SIDE1_SIZE_def SIDE2_SIZE_def SIDE3_SIZE_def
      SIDE4_SIZE_def SIDE1_PATTERN_def SIDE2_PATTERN_def SIDE3_PATTERN_def SIDE4_PATTERN_def)

text \<open>
  Claim C4, amended. One advance (\<open>processPattern\<close> with all axes idle) first moves
  the cursor over unselected sides: the side index only grows, every side passed over is
  unselected, the side reached is selected or is 4, the command index is reset to 0 when
  the side index moved, and nothing else changes. Then: at side 4 it signals
  \<open>CYCLE_COMPLETE\<close> and does nothing more. Otherwise, if the command index is below
  the side's table size, it executes exactly the one command at the cursor and increments
  the command index, leaving the side index as it is even when the command index thereby
  reaches the table size. Otherwise (the command index reached the table size on an
  earlier advance) it executes nothing, resets the command index to 0 and increments the
  side index: the move to the next side is an advance of its own.
\<close>

theorem processPattern_advance:
  assumes "\<not> motorsRunning s"
  defines "s1 \<equiv> findNextSide s"
  shows "s1 = s\<lparr>currentSide := currentSide s1, currentCommand := currentCommand s1\<rparr> \<and>
         currentSide s \<le> currentSide s1 \<and>
         (\<forall>k. currentSide s \<le> k \<and> k < currentSide s1 \<longrightarrow> \<not> sidesToPaint s ! k) \<and>
         (currentSide s1 < 4 \<longrightarrow> sidesToPaint s ! currentSide s1) \<and>
         currentCommand s1 = (if currentSide s1 = currentSide s then currentCommand s else 0) \<and>
         (currentSide s1 \<ge> 4 \<longrightarrow> processPattern s = s1\<lparr>systemState := CYCLE_COMPLETE\<rparr>) \<and>
         (currentSide s1 < 4 \<and> currentCommand s1 < patternSize (currentSide s1) \<longrightarrow>
            processPattern s =
              (executeCommand (currentPattern (currentSide s1) ! currentCommand s1)
                 (s1\<lparr>hwlog := hwlog s @ configCalls @
                      [PatternRead (currentSide s1) (currentCommand s1)]\<rparr>))
              \<lparr>currentCommand := currentCommand s1 + 1\<rparr> \<and>
            currentSide (processPattern s) = currentSide s1 \<and>
            currentCommand (processPattern s) = currentCommand s1 + 1) \<and>
         (currentSide s1 < 4 \<and> \<not> currentCommand s1 < patternSize (currentSide s1) \<longrightarrow>
            processPattern s =
              s1\<lparr>hwlog := hwlog s @ configCalls, currentCommand := 0,
                 currentSide := currentSide s1 + 1\<rparr>)"
proof -
  have fr: "s1 = s\<lparr>currentSide := currentSide s1, currentCommand := currentCommand s1\<rparr>"
    unfolding s1_def by (rule findNextSide_frame)
  have lg: "hwlog s1 = hwlog s" and mr: "\<not> motorsRunning s1"
    using assms(1) by (simp_all add: s1_def findNextSide_fields)
  have cur: "currentSide s \<le> currentSide s1"
    "\<forall>k. currentSide s \<le> k \<and> k < currentSide s1 \<longrightarrow> \<not> sidesToPaint s ! k"
    "currentSide s1 < 4 \<longrightarrow> sidesToPaint s ! currentSide s1"
    "currentCommand s1 = (if currentSide s1 = currentSide s then currentCommand s else 0)"
    using findNextSide_cursor [of s] unfolding s1_def by blast+
  have p: "processPattern s =
      (if currentSide s1 \<ge> 4 then s1\<lparr>systemState := CYCLE_COMPLETE\<rparr>
       else if currentCommand s1 < patternSize (currentSide s1) then
         (executeCommand (currentPattern (currentSide s1) ! currentCommand s1)
            (s1\<lparr>hwlog := hwlog s @ configCalls @
                 [PatternRead (currentSide s1) (currentCommand s1)]\<rparr>))
         \<lparr>currentCommand := currentCommand s1 + 1\<rparr>
       else s1\<lparr>hwlog := hwlog s @ configCalls, currentCommand := 0,
              currentSide := currentSide s1 + 1\<rparr>)"
    using assms(1) lg
    by (simp add: processPattern_def Let_def s1_def [symmetric] emit_def configCalls_def
        executeCommand_fields)
  have c3: "currentSide (processPattern s) = currentSide s1 \<and>
      currentCommand (processPattern s) = currentCommand s1 + 1"
    if "currentSide s1 < 4" "currentCommand s1 < patternSize (currentSide s1)"
    using that by (simp add: p executeCommand_fields)
  show ?thesis
    using fr cur p c3 by simp
qed

text \<open>
  Claim C4, as stated, fails in its last step: on the advance that executes the last
  command of side 4 the command index reaches the table size 24, and the cursor stays
  at side 3, command 24, instead of moving to side 4, command 0. The next advance
  executes no command and only then moves the cursor.
\<close>

theorem advance_wraps_later_counterexample:
  "currentCommand lastOfSide4 + 1 = patternSize (currentSide lastOfSide4) \<and>
   currentSide (processPattern lastOfSide4) = 3 \<and>
   currentCommand (processPattern lastOfSide4) = 24 \<and>
   filter (\<lambda>e. \<not> isAxisCall e) (hwlog (processPattern (processPattern lastOfSide4))) =
     [PatternRead 3 23] \<and>
   currentSide (processPattern (processPattern lastOfSide4)) = 4 \<and>
   currentCommand (processPattern (processPattern lastOfSide4)) = 0"
  by (simp add: lastOfSide4_def processPattern_def Let_def findNextSide_stop pattern_sizes
      emit_simps executeCommand_fields executeCommand_def currentPattern_def SIDE4_PATTERN_def
      MOVE_Y_def isAxisCall_simps)


theorem processPattern_advance_witness:
  "\<not> motorsRunning lastOfSide4 \<and> findNextSide lastOfSide4 = lastOfSide4 \<and>
   currentSide (processPattern lastOfSide4) = 3 \<and>
   currentCommand (processPattern lastOfSide4) = 24"
proof -
  have f: "findNextSide lastOfSide4 = lastOfSide4"
    by (rule findNextSide_stop) (simp add: lastOfSide4_def)
  have m: "\<not> motorsRunning lastOfSide4"
    by (simp add: lastOfSide4_def)
  have c: "currentSide lastOfSide4 = 3" "currentCommand lastOfSide4 = 23"
    by (simp_all add: lastOfSide4_def)
  show ?thesis
    using processPattern_advance [OF m] m unfolding f c
    by (simp add: pattern_sizes executeCommand_fields c)
qed

end
